theory Spec2Isabelle
  imports Main "HOL-Library.Word"
begin

section \<open>Python values used by \<^verbatim>\<open>terraform_ci\<close>\<close>

text \<open>
  The module is Python 3 (\<^verbatim>\<open>str.split(sep=...)\<close> takes a keyword argument only there).
  A \<^verbatim>\<open>str\<close> is a sequence of Unicode code points and a \<^verbatim>\<open>bytes\<close> object a sequence
  of octets. An exception is a value of \<open>py_error\<close>; a computation that may raise returns
  \<open>py_error + 'a\<close>, with \<open>Inl\<close> for the exception.
\<close>

type_synonym pystr = "nat list"

type_synonym pybytes = "8 word list"

datatype py_error =
  AttributeError | IndexError | ValueError | TypeError | UnicodeDecodeError | OSError

text \<open>Sequencing: the first exception raised leaves the computation.\<close>

definition bind_result :: "py_error + 'a \<Rightarrow> ('a \<Rightarrow> py_error + 'b) \<Rightarrow> py_error + 'b" where
  "bind_result m f = (case m of Inl e \<Rightarrow> Inl e | Inr x \<Rightarrow> f x)"

text \<open>An ASCII literal of the source, as code points.\<close>

definition str :: "string \<Rightarrow> pystr" where
  "str s = map of_char s"

text \<open>An ASCII literal as \<^verbatim>\<open>bytes\<close> (\<^verbatim>\<open>b'...'\<close>).\<close>

definition bytes :: "string \<Rightarrow> pybytes" where
  "bytes s = map of_char s"

subsection \<open>\<^verbatim>\<open>str.splitlines\<close>, \<^verbatim>\<open>str.split\<close>, \<^verbatim>\<open>str.startswith\<close>, indexing\<close>

text \<open>
  The characters \<^verbatim>\<open>str.isspace\<close> accepts: U+0009..U+000D, U+001C..U+001F, U+0020, U+0085,
  U+00A0, U+1680, U+2000..U+200A, U+2028, U+2029, U+202F, U+205F, U+3000.
\<close>

definition isspace :: "nat \<Rightarrow> bool" where
  "isspace c \<longleftrightarrow>
     (9 \<le> c \<and> c \<le> 13) \<or> (28 \<le> c \<and> c \<le> 32) \<or> c = 133 \<or> c = 160 \<or> c = 5760 \<or>
     (8192 \<le> c \<and> c \<le> 8202) \<or> c = 8232 \<or> c = 8233 \<or> c = 8239 \<or> c = 8287 \<or> c = 12288"

text \<open>
  The line boundaries of \<^verbatim>\<open>str.splitlines\<close>: U+000A..U+000D, U+001C..U+001E, U+0085,
  U+2028, U+2029; a carriage return followed by a line feed is one boundary.
\<close>

definition is_linebreak :: "nat \<Rightarrow> bool" where
  "is_linebreak c \<longleftrightarrow>
     (10 \<le> c \<and> c \<le> 13) \<or> (28 \<le> c \<and> c \<le> 30) \<or> c = 133 \<or> c = 8232 \<or> c = 8233"

text \<open>
  \<open>splitlines_from cur s\<close>: the lines of \<open>s\<close>, where \<open>cur\<close> is the part of the current line
  already read. A line is emitted at each boundary; the text after the last boundary is a
  line only when it is not empty.
\<close>

fun splitlines_from :: "pystr \<Rightarrow> pystr \<Rightarrow> pystr list" where
  "splitlines_from cur [] = (if cur = [] then [] else [cur])"
| "splitlines_from cur [c] = (if is_linebreak c then [cur] else [cur @ [c]])"
| "splitlines_from cur (c # d # ds) =
     (if c = 13 \<and> d = 10 then cur # splitlines_from [] ds
      else if is_linebreak c then cur # splitlines_from [] (d # ds)
      else splitlines_from (cur @ [c]) (d # ds))"

definition splitlines :: "pystr \<Rightarrow> pystr list" where
  "splitlines s = splitlines_from [] s"

text \<open>
  \<^verbatim>\<open>str.split()\<close> with no separator: the maximal runs of non-whitespace characters.
\<close>

fun split_from :: "pystr \<Rightarrow> pystr \<Rightarrow> pystr list" where
  "split_from cur [] = (if cur = [] then [] else [cur])"
| "split_from cur (c # cs) =
     (if isspace c then (if cur = [] then split_from [] cs else cur # split_from [] cs)
      else split_from (cur @ [c]) cs)"

definition split_ws :: "pystr \<Rightarrow> pystr list" where
  "split_ws s = split_from [] s"

definition startswith :: "pystr \<Rightarrow> pystr \<Rightarrow> bool" where
  "startswith s p \<longleftrightarrow> take (length p) s = p"

text \<open>\<^verbatim>\<open>xs[i]\<close> for a non-negative index: IndexError out of range.\<close>

definition getitem :: "'a list \<Rightarrow> nat \<Rightarrow> py_error + 'a" where
  "getitem xs i = (if i < length xs then Inr (xs ! i) else Inl IndexError)"

subsection \<open>\<^verbatim>\<open>int(s)\<close> on a string\<close>

text \<open>
  \<^verbatim>\<open>int\<close> accepts every Unicode decimal digit. The digits come in runs of ten consecutive
  code points with the values 0 to 9; \<open>decimal_zeros\<close> lists the first code point of each
  run (Unicode 14.0).
\<close>

definition decimal_zeros :: "nat list" where
  "decimal_zeros =
    [0x30, 0x660, 0x6F0, 0x7C0, 0x966, 0x9E6, 0xA66, 0xAE6, 0xB66, 0xBE6, 0xC66, 0xCE6,
     0xD66, 0xDE6, 0xE50, 0xED0, 0xF20, 0x1040, 0x1090, 0x17E0, 0x1810, 0x1946, 0x19D0,
     0x1A80, 0x1A90, 0x1B50, 0x1BB0, 0x1C40, 0x1C50, 0xA620, 0xA8D0, 0xA900, 0xA9D0,
     0xA9F0, 0xAA50, 0xABF0, 0xFF10, 0x104A0, 0x10D30, 0x11066, 0x110F0, 0x11136,
     0x111D0, 0x112F0, 0x11450, 0x114D0, 0x11650, 0x116C0, 0x11730, 0x118E0, 0x11950,
     0x11C50, 0x11D50, 0x11DA0, 0x16A60, 0x16AC0, 0x16B50, 0x1D7CE, 0x1D7D8, 0x1D7E2,
     0x1D7EC, 0x1D7F6, 0x1E140, 0x1E2F0, 0x1E950, 0x1FBF0]"

definition to_decimal :: "nat \<Rightarrow> nat option" where
  "to_decimal c =
     (case filter (\<lambda>z. z \<le> c \<and> c < z + 10) decimal_zeros of
        [] \<Rightarrow> None
      | z # _ \<Rightarrow> Some (c - z))"

text \<open>
  The interpreter first rewrites the string to ASCII: an ASCII character stays, any other
  whitespace becomes a space, any other decimal digit becomes its ASCII digit, and the
  first character that is none of these becomes a question mark, where the rewriting stops.
\<close>

fun transform_decimal_and_space :: "pystr \<Rightarrow> pystr" where
  "transform_decimal_and_space [] = []"
| "transform_decimal_and_space (c # cs) =
     (if c < 127 then c # transform_decimal_and_space cs
      else if isspace c then 32 # transform_decimal_and_space cs
      else (case to_decimal c of
              None \<Rightarrow> [63]
            | Some d \<Rightarrow> (48 + d) # transform_decimal_and_space cs))"

definition ascii_space :: "nat \<Rightarrow> bool" where
  "ascii_space c \<longleftrightarrow> c = 32 \<or> (9 \<le> c \<and> c \<le> 13)"

definition ascii_digit :: "nat \<Rightarrow> bool" where
  "ascii_digit c \<longleftrightarrow> 48 \<le> c \<and> c \<le> 57"

fun double_underscore :: "pystr \<Rightarrow> bool" where
  "double_underscore (c # d # ds) = ((c = 95 \<and> d = 95) \<or> double_underscore (d # ds))"
| "double_underscore _ = False"

definition digits_value :: "pystr \<Rightarrow> nat" where
  "digits_value ds = foldl (\<lambda>a c. 10 * a + (c - 48)) 0 ds"

text \<open>
  The base-10 literal parser on the rewritten string: optional ASCII whitespace, an optional
  sign, then digits, where single underscores may stand between digits, then optional
  whitespace up to the end. Anything else is a ValueError. The bound that later
  interpreters put on the number of digits (\<^verbatim>\<open>sys.int_max_str_digits\<close>) is not modelled.
\<close>

definition long_from_string :: "pystr \<Rightarrow> py_error + int" where
  "long_from_string s =
     (let s1 = dropWhile ascii_space s;
          neg = (case s1 of [] \<Rightarrow> False | c # _ \<Rightarrow> c = 45);
          s2 = (case s1 of [] \<Rightarrow> [] | c # r \<Rightarrow> if c = 43 \<or> c = 45 then r else s1);
          run = takeWhile (\<lambda>c. ascii_digit c \<or> c = 95) s2;
          rest = dropWhile (\<lambda>c. ascii_digit c \<or> c = 95) s2
      in (case run of
            [] \<Rightarrow> Inl ValueError
          | c # _ \<Rightarrow>
              if c = 95 \<or> last run = 95 \<or> double_underscore run \<or> \<not> list_all ascii_space rest
              then Inl ValueError
              else let n = int (digits_value (filter (\<lambda>c. c \<noteq> 95) run))
                   in Inr (if neg then - n else n)))"

definition py_int :: "pystr \<Rightarrow> py_error + int" where
  "py_int s =
     long_from_string (if list_all (\<lambda>c. c < 128) s then s else transform_decimal_and_space s)"

subsection \<open>Rendering an integer: \<^verbatim>\<open>str(n)\<close>, \<^verbatim>\<open>'%d' % n\<close>\<close>

fun str_nat :: "nat \<Rightarrow> pystr" where
  "str_nat n = (if n < 10 then [48 + n] else str_nat (n div 10) @ [48 + n mod 10])"

declare str_nat.simps [simp del]

definition str_int :: "int \<Rightarrow> pystr" where
  "str_int n = (if n < 0 then 45 # str_nat (nat (- n)) else str_nat (nat n))"

definition str_bool :: "bool \<Rightarrow> pystr" where
  "str_bool b = (if b then str ''True'' else str ''False'')"

section \<open>\<^verbatim>\<open>get_action\<close>\<close>

text \<open>
  \<^verbatim>\<open>branch\<close> is a string or \<^verbatim>\<open>None\<close> (the default), \<^verbatim>\<open>pull_request\<close> a boolean.
\<close>

definition get_action :: "pystr option \<Rightarrow> bool \<Rightarrow> pystr" where
  "get_action branch pull_request =
     (if branch = Some (str ''master'') \<and> \<not> pull_request then str ''apply'' else str ''plan'')"

section \<open>\<^verbatim>\<open>parse_plan\<close>\<close>

type_synonym plan = "int option \<times> int option \<times> int option"

definition no_changes :: pystr where
  "no_changes = str ''No changes. Infrastructure is up-to-date.''"

text \<open>
  The body of the \<^verbatim>\<open>if line.startswith('Plan: ')\<close> branch: the three assignments, in the
  order of the source. An IndexError or ValueError leaves the function, so the variables
  assigned before it are never read.
\<close>

definition plan_counts :: "pystr \<Rightarrow> py_error + plan" where
  "plan_counts line =
     (let split_line = split_ws line in
      bind_result (getitem split_line 1) (\<lambda>t1.
      bind_result (py_int t1) (\<lambda>add.
      bind_result (getitem split_line 4) (\<lambda>t4.
      bind_result (py_int t4) (\<lambda>change.
      bind_result (getitem split_line 7) (\<lambda>t7.
      bind_result (py_int t7) (\<lambda>destroy.
      Inr (Some add, Some change, Some destroy))))))))"

text \<open>
  The \<^verbatim>\<open>for line in output.splitlines()\<close> loop, with the current values of
  \<^verbatim>\<open>add, change, destroy\<close>; the result is what the function returns.
\<close>

fun plan_loop :: "pystr list \<Rightarrow> plan \<Rightarrow> py_error + plan" where
  "plan_loop [] acc = Inr acc"
| "plan_loop (line # rest) acc =
     (if startswith line (str ''Plan: '') then
        bind_result (plan_counts line) (\<lambda>acc'. plan_loop rest acc')
      else if line = no_changes then Inr (Some 0, Some 0, Some 0)
      else plan_loop rest acc)"

text \<open>
  \<^verbatim>\<open>output\<close> is a string, or \<^verbatim>\<open>None\<close>: then \<^verbatim>\<open>output.splitlines()\<close> raises
  AttributeError before any assignment, the handler passes, and the initial values are
  returned. No operation of the loop raises AttributeError, and the handler catches nothing
  else.
\<close>

definition parse_plan :: "pystr option \<Rightarrow> py_error + plan" where
  "parse_plan output =
     (case output of
        None \<Rightarrow> Inr (None, None, None)
      | Some s \<Rightarrow> plan_loop (splitlines s) (None, None, None))"

text \<open>
  The line "Plan: X to add, Y to change, Z to destroy." as terraform prints it, the three
  counts in decimal.
\<close>

definition plan_line :: "nat \<Rightarrow> nat \<Rightarrow> nat \<Rightarrow> pystr" where
  "plan_line x y z =
     str ''Plan: '' @ str_nat x @ str '' to add, '' @ str_nat y @ str '' to change, ''
       @ str_nat z @ str '' to destroy.''"


section \<open>\<^verbatim>\<open>bytes.decode('utf-8')\<close>\<close>

text \<open>
  Strict UTF-8: a lead octet fixes the length of the sequence; overlong forms, the
  surrogates U+D800..U+DFFF and code points above U+10FFFF are rejected, as are a stray
  continuation octet and a truncated sequence. Every failure is a UnicodeDecodeError.
\<close>

definition continuation :: "8 word \<Rightarrow> bool" where
  "continuation b \<longleftrightarrow> 0x80 \<le> b \<and> b \<le> 0xBF"

definition second_of_three :: "8 word \<Rightarrow> 8 word \<Rightarrow> bool" where
  "second_of_three b b1 \<longleftrightarrow>
     (if b = 0xE0 then 0xA0 \<le> b1 \<and> b1 \<le> 0xBF
      else if b = 0xED then 0x80 \<le> b1 \<and> b1 \<le> 0x9F
      else continuation b1)"

definition second_of_four :: "8 word \<Rightarrow> 8 word \<Rightarrow> bool" where
  "second_of_four b b1 \<longleftrightarrow>
     (if b = 0xF0 then 0x90 \<le> b1 \<and> b1 \<le> 0xBF
      else if b = 0xF4 then 0x80 \<le> b1 \<and> b1 \<le> 0x8F
      else continuation b1)"

definition low_bits :: "nat \<Rightarrow> 8 word \<Rightarrow> nat" where
  "low_bits k b = unat b mod 2 ^ k"

definition cons_result :: "'a \<Rightarrow> py_error + 'a list \<Rightarrow> py_error + 'a list" where
  "cons_result x r = (case r of Inl e \<Rightarrow> Inl e | Inr xs \<Rightarrow> Inr (x # xs))"

fun utf8_decode :: "pybytes \<Rightarrow> py_error + pystr" where
  "utf8_decode [] = Inr []"
| "utf8_decode (b # bs) =
     (if b < 0x80 then cons_result (unat b) (utf8_decode bs)
      else if 0xC2 \<le> b \<and> b \<le> 0xDF then
        (case bs of
           b1 # r \<Rightarrow>
             if continuation b1
             then cons_result (low_bits 5 b * 64 + low_bits 6 b1) (utf8_decode r)
             else Inl UnicodeDecodeError
         | _ \<Rightarrow> Inl UnicodeDecodeError)
      else if 0xE0 \<le> b \<and> b \<le> 0xEF then
        (case bs of
           b1 # b2 # r \<Rightarrow>
             if second_of_three b b1 \<and> continuation b2
             then cons_result (low_bits 4 b * 4096 + low_bits 6 b1 * 64 + low_bits 6 b2)
                    (utf8_decode r)
             else Inl UnicodeDecodeError
         | _ \<Rightarrow> Inl UnicodeDecodeError)
      else if 0xF0 \<le> b \<and> b \<le> 0xF4 then
        (case bs of
           b1 # b2 # b3 # r \<Rightarrow>
             if second_of_four b b1 \<and> continuation b2 \<and> continuation b3
             then cons_result
                    (low_bits 3 b * 262144 + low_bits 6 b1 * 4096 + low_bits 6 b2 * 64
                       + low_bits 6 b3)
                    (utf8_decode r)
             else Inl UnicodeDecodeError
         | _ \<Rightarrow> Inl UnicodeDecodeError)
      else Inl UnicodeDecodeError)"

section \<open>The status record\<close>

text \<open>
  One record per module. The counts are integers, or \<^verbatim>\<open>None\<close> as \<^verbatim>\<open>parse_plan\<close>
  returns them when no line matched; the captured streams are \<^verbatim>\<open>bytes\<close> (as
  \<^verbatim>\<open>run_job\<close> stores them) or text.
\<close>

datatype blob = Bytes pybytes | Text pystr

record status =
  success :: bool
  add :: "int option"
  change :: "int option"
  destroy :: "int option"
  stdout :: blob
  stderr :: blob

text \<open>
  The status mapping is a dictionary from module name to record: a list of pairs in
  insertion order with distinct keys, so that \<^verbatim>\<open>status[k]\<close> for \<^verbatim>\<open>k\<close> in
  \<^verbatim>\<open>status.keys()\<close> is the record paired with \<^verbatim>\<open>k\<close>. The loops below run over the
  pairs.
\<close>

type_synonym status_map = "(pystr \<times> status) list"

section \<open>\<^verbatim>\<open>render_comment\<close>\<close>

datatype change_kind = Add | Change | Destroy

fun count_of :: "change_kind \<Rightarrow> status \<Rightarrow> int option" where
  "count_of Add st = add st"
| "count_of Change st = change st"
| "count_of Destroy st = destroy st"

fun map_change :: "change_kind \<Rightarrow> pystr" where
  "map_change Add = str ''![#c5f015](https://placehold.it/15/c5f015/000000?text=+) ''"
| "map_change Change = str ''![#1589F0](https://placehold.it/15/1589F0/000000?text=+) ''"
| "map_change Destroy = str ''![#f03c15](https://placehold.it/15/f03c15/000000?text=+) ''"

text \<open>
  The inner function \<^verbatim>\<open>flag\<close>. \<^verbatim>\<open>None > 0\<close> raises TypeError in Python 3.
\<close>

fun flag :: "status_map \<Rightarrow> change_kind \<Rightarrow> py_error + pystr" where
  "flag [] local_change = Inr []"
| "flag ((k, st) # rest) local_change =
     (case count_of local_change st of
        None \<Rightarrow> Inl TypeError
      | Some n \<Rightarrow> if n > 0 then Inr (map_change local_change) else flag rest local_change)"

fun join :: "pystr \<Rightarrow> pystr list \<Rightarrow> pystr" where
  "join sep [] = []"
| "join sep [x] = x"
| "join sep (x # y # ys) = x @ sep @ join sep (y # ys)"

fun tag_map :: "bool \<Rightarrow> pystr" where
  "tag_map True = str ''![#c5f015](https://placehold.it/15/c5f015/000000?text=+)''"
| "tag_map False = str ''![#f03c15](https://placehold.it/15/f03c15/000000?text=+)''"

text \<open>
  One entry of \<^verbatim>\<open>changes\<close>, as the format call prints it: \<^verbatim>\<open>'**%d**' % n\<close> for a
  positive count, the integer itself otherwise.
\<close>

definition bold :: "int \<Rightarrow> pystr" where
  "bold n = str ''**'' @ str_int n @ str ''**''"

definition render_change :: "int option \<Rightarrow> py_error + pystr" where
  "render_change count =
     (case count of
        None \<Rightarrow> Inl TypeError
      | Some n \<Rightarrow> Inr (if n > 0 then bold n else str_int n))"

definition render_row :: "pystr \<Rightarrow> status \<Rightarrow> py_error + pystr" where
  "render_row key st =
     bind_result (render_change (add st)) (\<lambda>a.
     bind_result (render_change (change st)) (\<lambda>c.
     bind_result (render_change (destroy st)) (\<lambda>d.
     Inr (str ''**'' @ key @ str ''** | '' @ tag_map (success st) @ str '' `''
            @ str_bool (success st) @ str ''` | '' @ a @ str '' | '' @ c @ str '' | '' @ d))))"

text \<open>The first \<^verbatim>\<open>for key in status.keys()\<close> loop; \<open>comment\<close> is the text so far.\<close>

fun rows_loop :: "status_map \<Rightarrow> pystr \<Rightarrow> py_error + pystr" where
  "rows_loop [] comment = Inr comment"
| "rows_loop ((key, st) # rest) comment =
     bind_result (render_row key st) (\<lambda>line. rows_loop rest (comment @ line @ [10]))"

definition decode_out :: "blob \<Rightarrow> py_error + pystr" where
  "decode_out out = (case out of Bytes b \<Rightarrow> utf8_decode b | Text t \<Rightarrow> Inr t)"

definition fenced :: "pystr \<Rightarrow> pystr" where
  "fenced out = (if out \<noteq> [] then str ''```'' @ out @ str ''```'' else str ''_no output_'')"

definition render_section :: "pystr \<Rightarrow> status \<Rightarrow> py_error + pystr" where
  "render_section key st =
     bind_result (decode_out (stdout st)) (\<lambda>cout.
     bind_result (decode_out (stderr st)) (\<lambda>cerr.
     Inr ([10] @ str ''# **'' @ key @ str ''**'' @ [10, 10] @ str ''## stdout'' @ [10, 10]
            @ fenced cout @ [10, 10] @ str ''## stderr'' @ [10, 10] @ fenced cerr @ [10])))"

text \<open>The second \<^verbatim>\<open>for key in status.keys()\<close> loop.\<close>

fun sections_loop :: "status_map \<Rightarrow> pystr \<Rightarrow> py_error + pystr" where
  "sections_loop [] comment = Inr comment"
| "sections_loop ((key, st) # rest) comment =
     bind_result (render_section key st) (\<lambda>line. sections_loop rest (comment @ line))"

definition separator :: pystr where
  "separator = str ''--- | --- | ---: | ---: | ---:''"

definition header :: "pystr \<Rightarrow> pystr \<Rightarrow> pystr \<Rightarrow> pystr" where
  "header fa fc fd =
     join (str '' | '')
       [str ''Module'', str ''Success'', fa @ str ''Add'', fc @ str ''Change'',
        fd @ str ''Destroy'']"

definition render_comment :: "status_map \<Rightarrow> py_error + pystr" where
  "render_comment status =
     bind_result (flag status Add) (\<lambda>fa.
     bind_result (flag status Change) (\<lambda>fc.
     bind_result (flag status Destroy) (\<lambda>fd.
     bind_result (rows_loop status (header fa fc fd @ [10] @ separator @ [10])) (\<lambda>comment.
     sections_loop status comment))))"

subsection \<open>Status mappings named in the properties\<close>

text \<open>Every count of every module is an integer.\<close>

definition integer_counts :: "status_map \<Rightarrow> bool" where
  "integer_counts status \<longleftrightarrow>
     list_all (\<lambda>(k, st). add st \<noteq> None \<and> change st \<noteq> None \<and> destroy st \<noteq> None) status"

text \<open>Some module has a count greater than zero in the given column.\<close>

definition some_positive :: "status_map \<Rightarrow> change_kind \<Rightarrow> bool" where
  "some_positive status c \<longleftrightarrow>
     list_ex (\<lambda>(k, st). case count_of c st of None \<Rightarrow> False | Some n \<Rightarrow> 0 < n) status"

text \<open>Every captured stream is text, or bytes that are valid UTF-8.\<close>

definition decodable :: "status_map \<Rightarrow> bool" where
  "decodable status \<longleftrightarrow>
     list_all (\<lambda>(k, st). \<not> isl (decode_out (stdout st)) \<and> \<not> isl (decode_out (stderr st)))
       status"

section \<open>\<^verbatim>\<open>execute\<close> and \<^verbatim>\<open>run_job\<close>\<close>

text \<open>
  The operating system is a parameter: \<open>popen cmd\<close> is what spawning \<open>cmd\<close> and draining
  its pipes gives, the return code with the two captured streams, or OSError when the
  program cannot be started. The log line is not modelled.
\<close>

type_synonym process = "pystr list \<Rightarrow> py_error + (int \<times> pybytes \<times> pybytes)"

definition execute :: "process \<Rightarrow> pystr list \<Rightarrow> py_error + (int \<times> pybytes \<times> pybytes)" where
  "execute popen cmd =
     bind_result (popen cmd) (\<lambda>(returncode, cout, cerr). Inr (returncode, cout, cerr))"

text \<open>An operating system in which every command exits with the given outcome.\<close>

definition exited :: "int \<Rightarrow> pybytes \<Rightarrow> pybytes \<Rightarrow> process" where
  "exited returncode cout cerr cmd = Inr (returncode, cout, cerr)"

definition run_job :: "process \<Rightarrow> pystr \<Rightarrow> pystr \<Rightarrow> py_error + status" where
  "run_job popen path action =
     bind_result (execute popen [str ''make'', str ''-C'', path, action])
       (\<lambda>(returncode, cout, cerr).
     bind_result (utf8_decode cout) (\<lambda>text.
     bind_result (parse_plan (Some text)) (\<lambda>parse_tree.
     Inr \<lparr>success = (returncode = 0), add = fst parse_tree, change = fst (snd parse_tree),
          destroy = snd (snd parse_tree), stdout = Bytes cout, stderr = Bytes cerr\<rparr>)))"

section \<open>\<^verbatim>\<open>setup_environment\<close>\<close>








section \<open>Properties of \<^verbatim>\<open>get_action\<close>\<close>

text \<open>
  Claim C4. \<^verbatim>\<open>get_action\<close> returns "apply" if and only if the branch equals "master" and
  \<^verbatim>\<open>pull_request\<close> is false, and "plan" in every other case; in particular for
  ("master", False), ("master", True), ("develop", False) and (None, False).
\<close>

theorem get_action_apply_iff:
  "(get_action branch pull_request = str ''apply'' \<longleftrightarrow>
      branch = Some (str ''master'') \<and> \<not> pull_request)
   \<and> (get_action branch pull_request = str ''plan'' \<longleftrightarrow>
      \<not> (branch = Some (str ''master'') \<and> \<not> pull_request))
   \<and> get_action (Some (str ''master'')) False = str ''apply''
   \<and> get_action (Some (str ''master'')) True = str ''plan''
   \<and> get_action (Some (str ''develop'')) False = str ''plan''
   \<and> get_action None False = str ''plan''"
proof -
  have ne: "str ''apply'' \<noteq> str ''plan''" by (simp add: str_def)
  have dev: "str ''develop'' \<noteq> str ''master''" by (simp add: str_def)
  show ?thesis using ne dev by (auto simp: get_action_def)
qed

theorem get_action_apply_iff_witness:
  "get_action (Some (str ''master'')) False = str ''apply''
   \<and> get_action (Some (str ''release'')) False = str ''plan''"
proof -
  have rel: "str ''release'' \<noteq> str ''master''" by (simp add: str_def)
  from get_action_apply_iff [of "Some (str ''master'')" False]
       get_action_apply_iff [of "Some (str ''release'')" False] rel
  show ?thesis by simp
qed

section \<open>Properties of \<^verbatim>\<open>parse_plan\<close>\<close>

lemma plan_loop_skip:
  "\<forall>line \<in> set ls. \<not> startswith line (str ''Plan: '') \<and> line \<noteq> no_changes \<Longrightarrow>
   plan_loop ls acc = Inr acc"
  by (induction ls arbitrary: acc) simp_all

text \<open>
  Claim C7. For every input string with no line beginning with "Plan: " and no line equal
  to "No changes. Infrastructure is up-to-date.", \<^verbatim>\<open>parse_plan\<close> returns
  (None, None, None).
\<close>

theorem parse_plan_no_match:
  assumes "\<forall>line \<in> set (splitlines s). \<not> startswith line (str ''Plan: '') \<and> line \<noteq> no_changes"
  shows "parse_plan (Some s) = Inr (None, None, None)"
  using assms by (simp add: parse_plan_def plan_loop_skip)

lemma lines_planning:
  "splitlines (str ''Planning...\<newline>done'') = [str ''Planning...'', str ''done'']"
  by (simp add: splitlines_def str_def is_linebreak_def)

theorem parse_plan_no_match_witness:
  "splitlines (str ''Planning...\<newline>done'') = [str ''Planning...'', str ''done'']
   \<and> \<not> startswith (str ''Planning...'') (str ''Plan: '')
   \<and> \<not> startswith (str ''done'') (str ''Plan: '')
   \<and> str ''Planning...'' \<noteq> no_changes \<and> str ''done'' \<noteq> no_changes
   \<and> parse_plan (Some (str ''Planning...\<newline>done'')) = Inr (None, None, None)"
proof -
  have each: "\<not> startswith (str ''Planning...'') (str ''Plan: '')"
    "\<not> startswith (str ''done'') (str ''Plan: '')"
    "str ''Planning...'' \<noteq> no_changes" "str ''done'' \<noteq> no_changes"
    by (simp_all add: str_def startswith_def no_changes_def)
  then have h: "\<forall>line \<in> set (splitlines (str ''Planning...\<newline>done'')).
      \<not> startswith line (str ''Plan: '') \<and> line \<noteq> no_changes"
    by (simp add: lines_planning)
  from parse_plan_no_match [OF h] each lines_planning show ?thesis by simp
qed

subsection \<open>Decimal numbers and well-formed lines\<close>

lemma str_nat_digits: "c \<in> set (str_nat n) \<Longrightarrow> 48 \<le> c \<and> c \<le> 57"
proof (induction n arbitrary: c rule: str_nat.induct)
  case (1 n)
  show ?case
  proof (cases "n < 10")
    case True
    with "1.prems" show ?thesis by (simp add: str_nat.simps [of n])
  next
    case False
    with "1.prems" have "c \<in> set (str_nat (n div 10)) \<or> c = 48 + n mod 10"
      by (auto simp: str_nat.simps [of n])
    then show ?thesis
    proof
      assume "c \<in> set (str_nat (n div 10))"
      with False "1.IH" show ?thesis by simp
    next
      assume "c = 48 + n mod 10"
      moreover have "n mod 10 < 10" by simp
      ultimately show ?thesis by linarith
    qed
  qed
qed

lemma str_nat_not_Nil: "str_nat n \<noteq> []"
  by (simp add: str_nat.simps [of n])

lemma digits_value_snoc: "digits_value (ds @ [c]) = 10 * digits_value ds + (c - 48)"
  by (simp add: digits_value_def)

lemma digits_value_str_nat: "digits_value (str_nat n) = n"
proof (induction n rule: str_nat.induct)
  case (1 n)
  show ?case
  proof (cases "n < 10")
    case True
    then show ?thesis by (simp add: str_nat.simps [of n] digits_value_def)
  next
    case False
    with "1.IH" have "digits_value (str_nat (n div 10)) = n div 10" by simp
    with False show ?thesis
      by (simp add: str_nat.simps [of n] digits_value_snoc)
  qed
qed

lemma no_double_underscore: "95 \<notin> set ds \<Longrightarrow> \<not> double_underscore ds"
  by (induction ds rule: double_underscore.induct) auto

lemma long_from_string_digits:
  assumes ne: "ds \<noteq> []" and dig: "\<forall>c \<in> set ds. 48 \<le> c \<and> c \<le> 57"
  shows "long_from_string ds = Inr (int (digits_value ds))"
proof -
  obtain c r where ds: "ds = c # r" using ne by (cases ds) auto
  have c: "48 \<le> c" "c \<le> 57" using dig ds by auto
  have sp: "dropWhile ascii_space ds = ds"
    using c by (simp add: ds ascii_space_def)
  have tw: "takeWhile (\<lambda>c. ascii_digit c \<or> c = 95) ds = ds"
    using dig by (simp add: ascii_digit_def)
  have dw: "dropWhile (\<lambda>c. ascii_digit c \<or> c = 95) ds = []"
    using dig by (simp add: ascii_digit_def)
  have no95: "95 \<notin> set ds" using dig by auto
  have flt: "filter (\<lambda>c. c \<noteq> 95) ds = ds" using no95 by (auto simp: filter_id_conv)
  have lst: "last ds \<noteq> 95" using no95 ne last_in_set by metis
  have s2: "(case ds of [] \<Rightarrow> [] | c # r \<Rightarrow> if c = 43 \<or> c = 45 then r else ds) = ds"
    using c by (simp add: ds)
  have neg: "(case ds of [] \<Rightarrow> False | c # _ \<Rightarrow> c = 45) = False"
    using c by (simp add: ds)
  have "long_from_string ds =
     (case ds of [] \<Rightarrow> Inl ValueError
      | c # _ \<Rightarrow> if c = 95 \<or> last ds = 95 \<or> double_underscore ds \<or> \<not> list_all ascii_space []
           then Inl ValueError else Inr (int (digits_value ds)))"
    unfolding long_from_string_def sp Let_def s2 neg tw dw flt by simp
  also have "\<dots> = Inr (int (digits_value ds))"
    using c lst no_double_underscore [OF no95] by (simp add: ds)
  finally show ?thesis .
qed

lemma py_int_str_nat: "py_int (str_nat n) = Inr (int n)"
proof -
  have dig: "\<forall>c \<in> set (str_nat n). 48 \<le> c \<and> c \<le> 57" using str_nat_digits by blast
  then have "list_all (\<lambda>c. c < 128) (str_nat n)" by (auto simp: list_all_iff)
  then have "py_int (str_nat n) = long_from_string (str_nat n)" by (simp add: py_int_def)
  with long_from_string_digits [OF str_nat_not_Nil dig] digits_value_str_nat
  show ?thesis by simp
qed

lemma split_from_word:
  "\<forall>c \<in> set w. \<not> isspace c \<Longrightarrow> split_from cur (w @ rest) = split_from (cur @ w) rest"
  by (induction w arbitrary: cur) simp_all

lemma str_nat_nospace: "\<forall>c \<in> set (str_nat n). \<not> isspace c"
  using str_nat_digits by (fastforce simp: isspace_def)

lemma split_from_number:
  "split_from [] (str_nat n @ 32 # rest) = str_nat n # split_from [] rest"
  using split_from_word [where w = "str_nat n" and cur = "[]" and rest = "32 # rest"]
    str_nat_nospace [of n] str_nat_not_Nil [of n]
  by (simp add: isspace_def)

lemma split_ws_plan_line:
  "split_ws (plan_line x y z) =
     [str ''Plan:'', str_nat x, str ''to'', str ''add,'', str_nat y, str ''to'',
      str ''change,'', str_nat z, str ''to'', str ''destroy.'']"
proof -
  have 1: "split_from [] (str ''Plan: '' @ r) = str ''Plan:'' # split_from [] r" for r
    by (simp add: str_def isspace_def)
  have 2: "split_from [] (str '' to add, '' @ r) = str ''to'' # str ''add,'' # split_from [] r" for r
    by (simp add: str_def isspace_def)
  have 3: "split_from [] (str '' to change, '' @ r) = str ''to'' # str ''change,'' # split_from [] r" for r
    by (simp add: str_def isspace_def)
  have 4: "split_from [] (str '' to destroy.'') = [str ''to'', str ''destroy.'']"
    by (simp add: str_def isspace_def)
  have n: "split_from [] (str_nat k @ str (CHR '' '' # t) @ r)
             = str_nat k # split_from [] (str (CHR '' '' # t) @ r)" for k t r
  proof -
    have "str_nat k @ str (CHR '' '' # t) @ r = str_nat k @ 32 # (str t @ r)"
      by (simp add: str_def)
    moreover have "split_from [] (str (CHR '' '' # t) @ r) = split_from [] (str t @ r)"
      by (simp add: str_def isspace_def)
    ultimately show ?thesis using split_from_number [of k "str t @ r"] by simp
  qed
  have n': "split_from [] (str_nat k @ str (CHR '' '' # t))
             = str_nat k # split_from [] (str (CHR '' '' # t))" for k t
    using n [of k t "[]"] by simp
  show ?thesis
    unfolding split_ws_def plan_line_def
    by (simp only: 1 2 3 4 n n')
qed

lemma plan_counts_plan_line:
  "plan_counts (plan_line x y z) = Inr (Some (int x), Some (int y), Some (int z))"
  by (simp add: plan_counts_def split_ws_plan_line getitem_def bind_result_def py_int_str_nat)

lemma startswith_plan_line: "startswith (plan_line x y z) (str ''Plan: '')"
  by (simp add: startswith_def plan_line_def str_def)

subsection \<open>The loop over the lines\<close>







lemma not_isl_Inr: "\<not> isl m \<Longrightarrow> \<exists>x. m = Inr x"
  by (cases m) auto










subsection \<open>Concrete inputs\<close>



lemma plan_line_4_11_7:
  "plan_line 4 11 7 = str ''Plan: 4 to add, 11 to change, 7 to destroy.''"
  by (simp add: plan_line_def str_nat.simps str_def)




lemma plan_counts_many: "plan_counts (str ''Plan: many'') = Inl ValueError"
proof -
  have sp: "split_ws (str ''Plan: many'') = [str ''Plan:'', str ''many'']"
    by (simp add: split_ws_def str_def isspace_def)
  have "py_int (str ''many'') = Inl ValueError"
    by (simp add: py_int_def long_from_string_def str_def ascii_space_def ascii_digit_def)
  then show ?thesis
    by (simp add: plan_counts_def sp getitem_def bind_result_def)
qed


lemma starts_many: "startswith (str ''Plan: many'') (str ''Plan: '')"
  by (simp add: startswith_def str_def)











section \<open>Properties of \<^verbatim>\<open>run_job\<close>\<close>

text \<open>
  Claim C5, amended. For every exit code, stdout and stderr the subprocess
  \<^verbatim>\<open>["make", "-C", path, action]\<close> returns, if stdout is valid UTF-8 and \<^verbatim>\<open>parse_plan\<close>
  returns on the decoded text, \<^verbatim>\<open>run_job\<close> returns a status record whose success field is
  true exactly when the exit code is zero, whose stdout and stderr fields are the captured
  streams and whose counts are the result of \<^verbatim>\<open>parse_plan\<close>; the exit code never causes an
  exception. When stdout is not valid UTF-8, or \<^verbatim>\<open>parse_plan\<close> raises, \<^verbatim>\<open>run_job\<close> raises
  that error.
\<close>

theorem run_job_status:
  assumes "popen [str ''make'', str ''-C'', path, action] = Inr (returncode, cout, cerr)"
  shows "(utf8_decode cout = Inr decoded \<and> parse_plan (Some decoded) = Inr (a, c, d) \<longrightarrow>
            run_job popen path action =
              Inr \<lparr>success = (returncode = 0), add = a, change = c, destroy = d,
                   stdout = Bytes cout, stderr = Bytes cerr\<rparr>)
       \<and> (utf8_decode cout = Inl e \<longrightarrow> run_job popen path action = Inl e)
       \<and> (utf8_decode cout = Inr decoded \<and> parse_plan (Some decoded) = Inl e \<longrightarrow>
            run_job popen path action = Inl e)"
  using assms by (simp add: run_job_def execute_def bind_result_def)

lemma decode_plan_bytes:
  "utf8_decode (bytes ''Plan: 4 to add, 11 to change, 7 to destroy.\<newline>'')
     = Inr (str ''Plan: 4 to add, 11 to change, 7 to destroy.\<newline>'')"
  by (simp add: bytes_def str_def cons_result_def)

lemma decode_many_bytes: "utf8_decode (bytes ''Plan: many'') = Inr (str ''Plan: many'')"
  by (simp add: bytes_def str_def cons_result_def)

lemma decode_invalid: "utf8_decode [0xFF] = Inl UnicodeDecodeError"
  by simp

lemma decode_two: "utf8_decode [0xC3, 0xA9] = Inr [0xE9]"
  by (simp add: continuation_def low_bits_def cons_result_def)

lemma decode_three: "utf8_decode [0xE2, 0x82, 0xAC] = Inr [0x20AC]"
  by (simp add: continuation_def second_of_three_def low_bits_def cons_result_def)

lemma decode_four: "utf8_decode [0xF0, 0x9F, 0x98, 0x80] = Inr [0x1F600]"
  by (simp add: continuation_def second_of_four_def low_bits_def cons_result_def)

lemma decode_surrogate: "utf8_decode [0xED, 0xA0, 0x80] = Inl UnicodeDecodeError"
  by (simp add: continuation_def second_of_three_def low_bits_def cons_result_def)

lemma decode_overlong: "utf8_decode [0xC0, 0x80] = Inl UnicodeDecodeError"
  by (simp add: continuation_def second_of_three_def low_bits_def cons_result_def)

section \<open>Properties of \<^verbatim>\<open>render_comment\<close>\<close>

lemma render_change_Some: "render_change (Some n) = Inr (if 0 < n then bold n else str_int n)"
  by (simp add: render_change_def)

lemma flag_integer:
  "integer_counts status \<Longrightarrow>
   flag status c = Inr (if some_positive status c then map_change c else [])"
proof (induction status)
  case Nil
  show ?case by (simp add: some_positive_def)
next
  case (Cons p status)
  obtain k st where p: "p = (k, st)" by (cases p)
  from Cons.prems p have "count_of c st \<noteq> None" and rest: "integer_counts status"
    by (cases c; simp add: integer_counts_def)+
  then obtain n where n: "count_of c st = Some n" by auto
  from Cons.IH [OF rest] n p show ?case
    by (simp add: some_positive_def)
qed


lemma render_row_integer:
  "add st = Some a \<Longrightarrow> change st = Some c \<Longrightarrow> destroy st = Some d \<Longrightarrow>
   render_row key st =
     Inr (str ''**'' @ key @ str ''** | '' @ tag_map (success st) @ str '' `''
            @ str_bool (success st) @ str ''` | ''
            @ (if 0 < a then bold a else str_int a) @ str '' | ''
            @ (if 0 < c then bold c else str_int c) @ str '' | ''
            @ (if 0 < d then bold d else str_int d))"
  by (simp add: render_row_def render_change_Some bind_result_def)



lemma rows_loop_collect:
  "map (\<lambda>(k, st). render_row k st) status = map Inr rows \<Longrightarrow>
   rows_loop status comment = Inr (comment @ concat (map (\<lambda>r. r @ [10]) rows))"
proof (induction status arbitrary: rows comment)
  case Nil
  then show ?case by simp
next
  case (Cons p status)
  obtain k st where p: "p = (k, st)" by (cases p)
  from Cons.prems obtain r rs where rows: "rows = r # rs" by (cases rows) auto
  with Cons.prems p have r: "render_row k st = Inr r"
    and rs: "map (\<lambda>(k, st). render_row k st) status = map Inr rs" by auto
  from Cons.IH [OF rs, of "comment @ r @ [10]"] r p rows show ?case
    by (simp add: bind_result_def)
qed


lemma sections_loop_collect:
  "map (\<lambda>(k, st). render_section k st) status = map Inr secs \<Longrightarrow>
   sections_loop status comment = Inr (comment @ concat secs)"
proof (induction status arbitrary: secs comment)
  case Nil
  then show ?case by simp
next
  case (Cons p status)
  obtain k st where p: "p = (k, st)" by (cases p)
  from Cons.prems obtain r rs where secs: "secs = r # rs" by (cases secs) auto
  with Cons.prems p have r: "render_section k st = Inr r"
    and rs: "map (\<lambda>(k, st). render_section k st) status = map Inr rs" by auto
  from Cons.IH [OF rs, of "comment @ r"] r p secs show ?case
    by (simp add: bind_result_def)
qed

lemma sections_exist:
  "decodable status \<Longrightarrow> \<exists>secs. map (\<lambda>(k, st). render_section k st) status = map Inr secs"
proof (induction status)
  case Nil
  show ?case by simp
next
  case (Cons p status)
  obtain k st where p: "p = (k, st)" by (cases p)
  from Cons.prems p obtain out err where "decode_out (stdout st) = Inr out"
      "decode_out (stderr st) = Inr err" and rest: "decodable status"
    by (auto simp: decodable_def dest!: not_isl_Inr)
  then have "\<exists>r. render_section k st = Inr r"
    by (simp add: render_section_def bind_result_def)
  then obtain r where r: "render_section k st = Inr r" ..
  from Cons.IH [OF rest] obtain rs where "map (\<lambda>(k, st). render_section k st) status = map Inr rs" ..
  with r p have "map (\<lambda>(k, st). render_section k st) (p # status) = map Inr (r # rs)" by simp
  then show ?case ..
qed




lemma str_int_0: "str_int 0 = str ''0''"
  by (simp add: str_int_def str_nat.simps str_def)

lemma some_positive_zero:
  "\<forall>(k, st) \<in> set status. count_of c st = Some 0 \<Longrightarrow> \<not> some_positive status c"
  by (induction status) (auto simp: some_positive_def)

lemma rows_zero:
  "\<forall>(k, st) \<in> set status.
      add st = Some 0 \<and> change st = Some 0 \<and> destroy st = Some 0 \<and> success st \<Longrightarrow>
   map (\<lambda>(k, st). render_row k st) status =
     map Inr (map (\<lambda>(k, st). str ''**'' @ k @ str ''** | '' @ tag_map True
                     @ str '' `True` | 0 | 0 | 0'') status)"
proof (induction status)
  case Nil
  show ?case by simp
next
  case (Cons p status)
  obtain k st where p: "p = (k, st)" by (cases p)
  from Cons.prems p have z: "add st = Some 0" "change st = Some 0" "destroy st = Some 0"
    and s: "success st" by auto
  have "render_row k st = Inr (str ''**'' @ k @ str ''** | '' @ tag_map True
                     @ str '' `True` | 0 | 0 | 0'')"
    using s by (simp add: render_row_integer [OF z] str_int_0 str_bool_def) (simp add: str_def)
  with Cons p show ?case by simp
qed

text \<open>
  Claim C3, amended. For every status mapping in which every module has add, change and
  destroy equal to 0 and success true, and whose captured streams are text or valid UTF-8,
  \<^verbatim>\<open>render_comment\<close> produces a table whose header has no marker icon and whose count
  cells are the plain "0"; each row does carry the green marker icon of the Success column
  and the module name in bold.
\<close>

theorem render_comment_all_zero:
  assumes zero: "\<forall>(k, st) \<in> set status.
      add st = Some 0 \<and> change st = Some 0 \<and> destroy st = Some 0 \<and> success st"
    and dec: "decodable status"
  shows "\<exists>secs.
     render_comment status =
       Inr (str ''Module | Success | Add | Change | Destroy'' @ [10] @ separator @ [10]
              @ concat (map (\<lambda>(k, st). str ''**'' @ k @ str ''** | '' @ tag_map True
                                @ str '' `True` | 0 | 0 | 0'' @ [10]) status)
              @ concat secs)
     \<and> map Inr secs = map (\<lambda>(k, st). render_section k st) status"
proof -
  have ints: "integer_counts status"
    using zero by (auto simp: integer_counts_def list_all_iff)
  have np: "\<not> some_positive status c" for c
    using zero by (intro some_positive_zero) (cases c; auto)
  from sections_exist [OF dec] obtain secs
    where secs: "map (\<lambda>(k, st). render_section k st) status = map Inr secs" ..
  have cc: "concat (map (\<lambda>r. r @ [10]) (map (\<lambda>(k, st). str ''**'' @ k @ str ''** | '' @ tag_map True
                     @ str '' `True` | 0 | 0 | 0'') status))
      = concat (map (\<lambda>(k, st). str ''**'' @ k @ str ''** | '' @ tag_map True
                                @ str '' `True` | 0 | 0 | 0'' @ [10]) status)"
    by (induction status) auto
  have hd: "header [] [] [] = str ''Module | Success | Add | Change | Destroy''"
    by (simp add: header_def str_def)
  have "render_comment status =
       Inr (str ''Module | Success | Add | Change | Destroy'' @ [10] @ separator @ [10]
              @ concat (map (\<lambda>(k, st). str ''**'' @ k @ str ''** | '' @ tag_map True
                                @ str '' `True` | 0 | 0 | 0'' @ [10]) status)
              @ concat secs)"
    unfolding render_comment_def
    by (simp only: flag_integer [OF ints] np if_False bind_result_def sum.case hd
        rows_loop_collect [OF rows_zero [OF zero]] sections_loop_collect [OF secs] cc append_assoc)
  with secs show ?thesis by auto
qed



subsection \<open>Concrete status mappings and subprocess outcomes\<close>

lemma section_no_output:
  "render_section key \<lparr>success = s, add = a, change = c, destroy = d,
                        stdout = Text [], stderr = Text []\<rparr>
     = Inr ([10] @ str ''# **'' @ key @ str ''**'' @ [10, 10] @ str ''## stdout'' @ [10, 10]
              @ str ''_no output_'' @ [10, 10] @ str ''## stderr'' @ [10, 10]
              @ str ''_no output_'' @ [10])"
  by (simp add: render_section_def decode_out_def fenced_def bind_result_def)

lemma section_invalid:
  "render_section key \<lparr>success = s, add = a, change = c, destroy = d,
                        stdout = Bytes [0xFF], stderr = Bytes []\<rparr>
     = Inl UnicodeDecodeError"
  by (simp add: render_section_def decode_out_def bind_result_def)




text \<open>
  The table of an all-zero, all-success mapping contains the marker icon of the Success
  column; and with a stdout that is not valid UTF-8 no table is returned.
\<close>

theorem render_comment_all_zero_counterexample:
  "render_comment
     [(str ''github'', \<lparr>success = True, add = Some 0, change = Some 0, destroy = Some 0,
                         stdout = Text [], stderr = Text []\<rparr>)]
     = Inr (str ''Module | Success | Add | Change | Destroy\<newline>--- | --- | ---: | ---: | ---:\<newline>**github** | ''
            @ str ''![#c5f015](https://placehold.it/15/c5f015/000000?text=+)''
            @ str '' `True` | 0 | 0 | 0\<newline>\<newline># **github**\<newline>\<newline>## stdout\<newline>\<newline>_no output_\<newline>\<newline>## stderr\<newline>\<newline>_no output_\<newline>'')
   \<and> render_comment
     [(str ''github'', \<lparr>success = True, add = Some 0, change = Some 0, destroy = Some 0,
                         stdout = Bytes [0xFF], stderr = Bytes []\<rparr>)]
     = Inl UnicodeDecodeError"
proof -
  have 1: "render_comment
     [(str ''github'', \<lparr>success = True, add = Some 0, change = Some 0, destroy = Some 0,
                         stdout = Text [], stderr = Text []\<rparr>)]
     = Inr (str ''Module | Success | Add | Change | Destroy\<newline>--- | --- | ---: | ---: | ---:\<newline>**github** | ''
            @ str ''![#c5f015](https://placehold.it/15/c5f015/000000?text=+)''
            @ str '' `True` | 0 | 0 | 0\<newline>\<newline># **github**\<newline>\<newline>## stdout\<newline>\<newline>_no output_\<newline>\<newline>## stderr\<newline>\<newline>_no output_\<newline>'')"
    by (simp add: render_comment_def bind_result_def render_row_def render_change_def
      section_no_output header_def separator_def str_int_0 str_bool_def) (simp add: str_def)
  have 2: "render_comment
     [(str ''github'', \<lparr>success = True, add = Some 0, change = Some 0, destroy = Some 0,
                         stdout = Bytes [0xFF], stderr = Bytes []\<rparr>)]
     = Inl UnicodeDecodeError"
    by (simp add: render_comment_def bind_result_def render_row_def render_change_def
      section_invalid)
  from 1 2 show ?thesis by (rule conjI)
qed

theorem render_comment_all_zero_witness:
  "render_comment
     [(str ''cloudflare'', \<lparr>success = True, add = Some 0, change = Some 0, destroy = Some 0,
                         stdout = Text [], stderr = Text []\<rparr>),
      (str ''github'', \<lparr>success = True, add = Some 0, change = Some 0, destroy = Some 0,
                         stdout = Text [], stderr = Text []\<rparr>)]
     = Inr (str ''Module | Success | Add | Change | Destroy\<newline>--- | --- | ---: | ---: | ---:\<newline>**cloudflare** | ![#c5f015](https://placehold.it/15/c5f015/000000?text=+) `True` | 0 | 0 | 0\<newline>**github** | ![#c5f015](https://placehold.it/15/c5f015/000000?text=+) `True` | 0 | 0 | 0\<newline>\<newline># **cloudflare**\<newline>\<newline>## stdout\<newline>\<newline>_no output_\<newline>\<newline>## stderr\<newline>\<newline>_no output_\<newline>\<newline># **github**\<newline>\<newline>## stdout\<newline>\<newline>_no output_\<newline>\<newline>## stderr\<newline>\<newline>_no output_\<newline>'')"
proof -
  let ?st = "\<lparr>success = True, add = Some 0, change = Some 0, destroy = Some 0,
                         stdout = Text [], stderr = Text []\<rparr>"
  let ?status = "[(str ''cloudflare'', ?st), (str ''github'', ?st)]"
  have zero: "\<forall>(k, st) \<in> set ?status.
      add st = Some 0 \<and> change st = Some 0 \<and> destroy st = Some 0 \<and> success st"
    by simp
  have dec: "decodable ?status" by (simp add: decodable_def decode_out_def)
  from render_comment_all_zero [OF zero dec] obtain secs where
    rc: "render_comment ?status =
       Inr (str ''Module | Success | Add | Change | Destroy'' @ [10] @ separator @ [10]
              @ concat (map (\<lambda>(k, st). str ''**'' @ k @ str ''** | '' @ tag_map True
                                @ str '' `True` | 0 | 0 | 0'' @ [10]) ?status)
              @ concat secs)"
    and secs: "map Inr secs = map (\<lambda>(k, st). render_section k st) ?status"
    by blast
  from secs have s: "secs = [[10] @ str ''# **'' @ str ''cloudflare'' @ str ''**'' @ [10, 10]
              @ str ''## stdout'' @ [10, 10]
              @ str ''_no output_'' @ [10, 10] @ str ''## stderr'' @ [10, 10]
              @ str ''_no output_'' @ [10],
              [10] @ str ''# **'' @ str ''github'' @ str ''**'' @ [10, 10]
              @ str ''## stdout'' @ [10, 10]
              @ str ''_no output_'' @ [10, 10] @ str ''## stderr'' @ [10, 10]
              @ str ''_no output_'' @ [10]]"
    by (auto simp: map_eq_Cons_conv section_no_output)
  show ?thesis
    unfolding rc s
    by (simp add: separator_def) (simp add: str_def)
qed


lemma parse_plan_many: "parse_plan (Some (str ''Plan: many'')) = Inl ValueError"
proof -
  have 1: "splitlines (str ''Plan: many'') = [str ''Plan: many'']"
    by (simp add: splitlines_def str_def is_linebreak_def)
  show ?thesis
    by (simp add: parse_plan_def 1 starts_many plan_counts_many bind_result_def)
qed

text \<open>
  With exit code 0, a stdout holding the line "Plan: many" makes \<^verbatim>\<open>run_job\<close> raise
  ValueError, and a stdout that is not valid UTF-8 makes it raise UnicodeDecodeError.
\<close>

theorem run_job_status_counterexample:
  "run_job (exited 0 (bytes ''Plan: many'') []) (str ''prod/web_app'') (str ''plan'')
     = Inl ValueError
   \<and> run_job (exited 0 [0xFF] []) (str ''prod/web_app'') (str ''plan'')
     = Inl UnicodeDecodeError"
  by (simp add: run_job_def execute_def exited_def bind_result_def decode_many_bytes
      parse_plan_many)

lemma parse_plan_line_4_11_7:
  "parse_plan (Some (str ''Plan: 4 to add, 11 to change, 7 to destroy.\<newline>''))
     = Inr (Some 4, Some 11, Some 7)"
proof -
  have l: "splitlines (str ''Plan: 4 to add, 11 to change, 7 to destroy.\<newline>'') = [plan_line 4 11 7]"
    by (simp add: plan_line_4_11_7) (simp add: splitlines_def str_def is_linebreak_def)
  show ?thesis
    by (simp add: parse_plan_def l startswith_plan_line plan_counts_plan_line bind_result_def)
qed

theorem run_job_status_witness:
  "run_job (exited 2 (bytes ''Plan: 4 to add, 11 to change, 7 to destroy.\<newline>'') (bytes ''failed''))
       (str ''prod/web_app'') (str ''plan'')
     = Inr \<lparr>success = False, add = Some 4, change = Some 11, destroy = Some 7,
            stdout = Bytes (bytes ''Plan: 4 to add, 11 to change, 7 to destroy.\<newline>''),
            stderr = Bytes (bytes ''failed'')\<rparr>"
proof -
  have h: "exited 2 (bytes ''Plan: 4 to add, 11 to change, 7 to destroy.\<newline>'') (bytes ''failed'')
             [str ''make'', str ''-C'', str ''prod/web_app'', str ''plan'']
           = Inr (2, bytes ''Plan: 4 to add, 11 to change, 7 to destroy.\<newline>'', bytes ''failed'')"
    by (simp add: exited_def)
  from run_job_status
      [where popen = "exited 2 (bytes ''Plan: 4 to add, 11 to change, 7 to destroy.\<newline>'')
                        (bytes ''failed'')"
         and path = "str ''prod/web_app''" and action = "str ''plan''" and returncode = 2
         and cout = "bytes ''Plan: 4 to add, 11 to change, 7 to destroy.\<newline>''"
         and cerr = "bytes ''failed''"
         and decoded = "str ''Plan: 4 to add, 11 to change, 7 to destroy.\<newline>''"
         and a = "Some 4" and c = "Some 11" and d = "Some 7" and e = ValueError]
    h decode_plan_bytes parse_plan_line_4_11_7
  show ?thesis by simp
qed

section \<open>Properties of \<^verbatim>\<open>setup_environment\<close>\<close>














end
